theory Spec2Isabelle
  imports Complex_Main
begin

section \<open>Python values, faults and arithmetic\<close>

text \<open>
  The stages of \<^verbatim>\<open>entity/image_processor.py\<close> compute pixel geometry and hand it to
  the imaging library. Every exception a stage can raise is a value of \<open>error\<close>, and a stage
  returns \<open>error + 'a\<close> (\<open>Inl\<close> the exception). Python floats are read as exact real numbers:
  the rounding of IEEE doubles is not part of the model, \<open>int(x)\<close> truncates toward zero.
\<close>

datatype error = ZeroDivisionError | ValueError | AttributeError

definition and_then :: "error + 'a \<Rightarrow> ('a \<Rightarrow> error + 'b) \<Rightarrow> error + 'b" where
  "and_then r f = (case r of Inl e \<Rightarrow> Inl e | Inr x \<Rightarrow> f x)"

definition py_int :: "real \<Rightarrow> int" where
  "py_int x = (if 0 \<le> x then \<lfloor>x\<rfloor> else \<lceil>x\<rceil>)"

definition py_truediv :: "real \<Rightarrow> real \<Rightarrow> error + real" where
  "py_truediv a b = (if b = 0 then Inl ZeroDivisionError else Inr (a / b))"

text \<open>A Python attribute that holds either a string or a boolean; \<open>==\<close> between the two
  kinds is false.\<close>

datatype pyval = PyStr string | PyBool bool

section \<open>Images\<close>

text \<open>
  \<open>GRAY\<close> and \<open>TRANSPARENT\<close> are the constants of \<^verbatim>\<open>enums.constant\<close>; the other colours
  of the source are strings (a hex code or a name), RGB triples, or the default of a call that names none.
\<close>

datatype colour = GRAY | TRANSPARENT | ColourStr string | RGB int int int | Unset

text \<open>
  An image is the expression that built it, so that both its size and the place of every
  pasted part can be read off:
  \<^item> \<open>Image_new w h c\<close> is \<^verbatim>\<open>Image.new(mode, (w, h), color=c)\<close>;
  \<^item> \<open>Bitmap w h o\<close> is a raster made outside the stages (a photo, rendered text, a logo),
    with the EXIF orientation it carries, if any;
  \<^item> \<open>Pasted dst src x y\<close> is \<open>dst\<close> after \<^verbatim>\<open>dst.paste(src, (x, y))\<close>;
  \<^item> \<open>Resized i w h\<close> is \<^verbatim>\<open>i.resize((w, h))\<close>;
  \<^item> \<open>GaussianBlur i r\<close> is \<^verbatim>\<open>i.filter(ImageFilter.GaussianBlur(radius=r))\<close>;
  \<^item> \<open>Blended a b t\<close> is \<^verbatim>\<open>Image.blend(a, b, t)\<close>;
  \<^item> \<open>AlphaComposite a b\<close> is \<^verbatim>\<open>Image.alpha_composite(a, b)\<close>;
  \<^item> \<open>Transposed i o\<close> is \<open>i\<close> turned as EXIF orientation \<open>o\<close> asks;
  \<^item> \<open>Concatenated is\<close> and \<open>Appended bg is side start\<close> are the results of the helpers
    \<^verbatim>\<open>concatenate_image\<close> and \<^verbatim>\<open>append_image_by_side\<close>.
  Colour modes are not modelled, so \<^verbatim>\<open>convert\<close> changes nothing.
\<close>

datatype image =
    Image_new int int colour
  | Bitmap int int "nat option"
  | Pasted image image int int
  | Resized image int int
  | GaussianBlur image int
  | Blended image image real
  | AlphaComposite image image
  | Transposed image nat
  | Concatenated "image list"
  | Appended image "image option list" string bool

fun im_size :: "image \<Rightarrow> int \<times> int" where
  "im_size (Image_new w h c) = (w, h)"
| "im_size (Bitmap w h ori) = (w, h)"
| "im_size (Pasted dst src x y) = im_size dst"
| "im_size (Resized i w h) = (w, h)"
| "im_size (GaussianBlur i r) = im_size i"
| "im_size (Blended a b t) = im_size a"
| "im_size (AlphaComposite a b) = im_size a"
| "im_size (Transposed i ori) =
     (if ori \<in> {5, 6, 7, 8} then (snd (im_size i), fst (im_size i)) else im_size i)"
| "im_size (Concatenated xs) =
     (fold max (map (\<lambda>i. fst (im_size i)) xs) 0, sum_list (map (\<lambda>i. snd (im_size i)) xs))"
| "im_size (Appended bg xs side is_start) = im_size bg"

definition width :: "image \<Rightarrow> int" where
  "width i = fst (im_size i)"

definition height :: "image \<Rightarrow> int" where
  "height i = snd (im_size i)"

text \<open>The EXIF orientation an image carries: the library copies the metadata of the first
  operand into the result of a filter, a resize, a blend or a composite; a new canvas has
  none, and pasting into a canvas leaves the canvas's metadata alone.\<close>

fun exif_orientation :: "image \<Rightarrow> nat option" where
  "exif_orientation (Image_new w h c) = None"
| "exif_orientation (Bitmap w h ori) = ori"
| "exif_orientation (Pasted dst src x y) = exif_orientation dst"
| "exif_orientation (Resized i w h) = exif_orientation i"
| "exif_orientation (GaussianBlur i r) = exif_orientation i"
| "exif_orientation (Blended a b t) = exif_orientation a"
| "exif_orientation (AlphaComposite a b) = exif_orientation a"
| "exif_orientation (Transposed i ori) = None"
| "exif_orientation (Concatenated xs) = None"
| "exif_orientation (Appended bg xs side is_start) = exif_orientation bg"

subsection \<open>The imaging library\<close>

text \<open>\<^verbatim>\<open>Image.new\<close> refuses a negative width or height.\<close>

definition Image_new_checked :: "int \<times> int \<Rightarrow> colour \<Rightarrow> error + image" where
  "Image_new_checked sz c =
     (if fst sz < 0 \<or> snd sz < 0 then Inl ValueError else Inr (Image_new (fst sz) (snd sz) c))"

text \<open>\<^verbatim>\<open>Image.resize\<close> copies when the size is unchanged and refuses a target below one
  pixel otherwise.\<close>

definition resize :: "image \<Rightarrow> int \<times> int \<Rightarrow> error + image" where
  "resize i sz =
     (if im_size i = sz then Inr i
      else if fst sz < 1 \<or> snd sz < 1 then Inl ValueError
      else Inr (Resized i (fst sz) (snd sz)))"

text \<open>\<^verbatim>\<open>ImageOps.expand(image, border, fill)\<close>: a new canvas with the image pasted at
  \<open>(left, top)\<close>. A border of two numbers \<open>(a, b)\<close> means \<open>a\<close> left and right, \<open>b\<close> top and
  bottom.\<close>

definition border2 :: "int \<times> int \<Rightarrow> int \<times> int \<times> int \<times> int" where
  "border2 b = (fst b, snd b, fst b, snd b)"

definition expand :: "image \<Rightarrow> int \<times> int \<times> int \<times> int \<Rightarrow> colour \<Rightarrow> error + image" where
  "expand i border fill =
     (case border of (l, t, r, b) \<Rightarrow>
        and_then (Image_new_checked (l + width i + r, t + height i + b) fill)
          (\<lambda>out. Inr (Pasted out i l t)))"

text \<open>\<^verbatim>\<open>Image.alpha_composite\<close> and \<^verbatim>\<open>Image.blend\<close> want two images of one size.\<close>

definition alpha_composite :: "image \<Rightarrow> image \<Rightarrow> error + image" where
  "alpha_composite a b = (if im_size a = im_size b then Inr (AlphaComposite a b) else Inl ValueError)"

definition blend :: "image \<Rightarrow> image \<Rightarrow> real \<Rightarrow> error + image" where
  "blend a b t = (if im_size a = im_size b then Inr (Blended a b t) else Inl ValueError)"

text \<open>\<^verbatim>\<open>ImageOps.exif_transpose\<close> turns the image when it carries an orientation from 2
  to 8 and copies it otherwise.\<close>

definition exif_transpose :: "image \<Rightarrow> image" where
  "exif_transpose i =
     (case exif_orientation i of
        None \<Rightarrow> i
      | Some ori \<Rightarrow> if 2 \<le> ori \<and> ori \<le> 8 then Transposed i ori else i)"

definition convert :: "image \<Rightarrow> string \<Rightarrow> image" where
  "convert i mode = i"

subsection \<open>The helpers of \<^verbatim>\<open>utils\<close>\<close>

text \<open>
  Modelled from the spec: \<^verbatim>\<open>padding_image(image, padding_size, padding_location, color)\<close>
  of \<^verbatim>\<open>utils\<close>, which is not among the sources. The spec has it add a border of
  \<open>padding_size\<close> pixels on each side the location string names (\<open>t\<close>, \<open>b\<close>, \<open>l\<close>, \<open>r\<close>):
  ``pad the left column symmetrically top+bottom'', ``pad the right column only on top'',
  ``Margin pads only top/left/right, PureWhiteMargin pads all four sides''. The content is
  pasted behind the left and top borders. A call that names no location pads top and bottom.
\<close>

definition padding_image :: "image \<Rightarrow> int \<Rightarrow> string \<Rightarrow> colour \<Rightarrow> error + image" where
  "padding_image i padding_size padding_location color =
     (let t = (if CHR ''t'' \<in> set padding_location then padding_size else 0);
          b = (if CHR ''b'' \<in> set padding_location then padding_size else 0);
          l = (if CHR ''l'' \<in> set padding_location then padding_size else 0);
          r = (if CHR ''r'' \<in> set padding_location then padding_size else 0)
      in and_then (Image_new_checked (width i + l + r, height i + t + b) color)
           (\<lambda>padding_img. Inr (Pasted padding_img i l t)))"

text \<open>
  Modelled from the spec: \<^verbatim>\<open>concatenate_image\<close> of \<^verbatim>\<open>utils\<close>, which is not among the
  sources. It stacks its images into one column (``stacked with a fixed-size spacer''); the
  column is as high as its parts together and as wide as the widest (see \<open>im_size\<close>).
\<close>

definition concatenate_image :: "image list \<Rightarrow> image" where
  "concatenate_image xs = Concatenated xs"

text \<open>
  Modelled from the spec: \<^verbatim>\<open>append_image_by_side(background, images, side, is_start)\<close> of
  \<^verbatim>\<open>utils\<close>, which is not among the sources. It places the images side by side on the band
  it is given, from the named edge; the band keeps its size. An absent logo is an entry
  \<open>None\<close> of the list. The side is \<open>'left'\<close> when the call names none.
\<close>

definition append_image_by_side :: "image \<Rightarrow> image option list \<Rightarrow> string \<Rightarrow> bool \<Rightarrow> image" where
  "append_image_by_side background images side is_start = Appended background images side is_start"

text \<open>
  Modelled from the spec: \<^verbatim>\<open>resize_image_with_width(image, width)\<close> of \<^verbatim>\<open>utils\<close>, which is
  not among the sources. It scales a band to a given width (``uniform scale,
  aspect-preserving''; ``resulting band width ... equals the container's working width
  exactly''). The spec does not say how the scaled height is rounded to pixels, so the
  rounding is the parameter \<open>to_px\<close>.
\<close>

definition resize_image_with_width :: "(real \<Rightarrow> int) \<Rightarrow> image \<Rightarrow> int \<Rightarrow> error + image" where
  "resize_image_with_width to_px i w =
     and_then (py_truediv (of_int w) (of_int (width i)))
       (\<lambda>scale. resize i (w, to_px (of_int (height i) * scale)))"

section \<open>Config and ImageContainer\<close>

text \<open>
  Modelled from the spec: the class \<^verbatim>\<open>Config\<close> and its per-quadrant elements, which are not
  among the sources. A config is its settings, each field named after the accessor that reads
  it; \<open>bg_color\<close> is the attribute the watermark stage writes and the margin stages read.
  What \<^verbatim>\<open>is_logo_left()\<close> returns is kept as a Python value. The logo loader maps a camera
  make to a bitmap or to nothing.
\<close>

record element =
  get_name :: string
  get_color :: colour
  is_bold :: bool

record config =
  bg_color :: colour
  get_background_color :: colour
  is_logo_left :: pyval
  has_logo_enabled :: bool
  get_left_top :: element
  get_left_bottom :: element
  get_right_top :: element
  get_right_bottom :: element
  get_font :: string
  get_bold_font :: string
  get_font_padding_level :: int
  get_white_margin_width :: real
  load_logo :: "string \<Rightarrow> image option"

text \<open>
  Modelled from the spec: the class \<^verbatim>\<open>ImageContainer\<close>, which is not among the sources. A
  container holds the original image, the working image, the original aspect ratio (``fixed
  at construction''), the camera make and model, the parameter string and the attribute
  lookup.
\<close>

record container =
  img :: image
  watermark_img :: image
  original_ratio :: real
  get_make :: string
  get_model :: string
  get_param_str :: string
  get_attribute_str :: "element \<Rightarrow> string"

text \<open>
  Modelled from the spec: the accessors of \<^verbatim>\<open>ImageContainer\<close>. Width, height and ratio are
  those of the current working image (``always consistent with the current working image'',
  ``aspect ratio = width/height''); a stage replaces the working image as a whole.
\<close>

definition get_watermark_img :: "container \<Rightarrow> image" where
  "get_watermark_img c = watermark_img c"

definition update_watermark_img :: "container \<Rightarrow> image \<Rightarrow> container" where
  "update_watermark_img c i = c\<lparr>watermark_img := i\<rparr>"

definition get_width :: "container \<Rightarrow> int" where
  "get_width c = width (get_watermark_img c)"

definition get_height :: "container \<Rightarrow> int" where
  "get_height c = height (get_watermark_img c)"

definition get_ratio :: "container \<Rightarrow> error + real" where
  "get_ratio c = py_truediv (of_int (get_width c)) (of_int (get_height c))"

definition get_original_ratio :: "container \<Rightarrow> real" where
  "get_original_ratio c = original_ratio c"

section \<open>Margin stages\<close>

definition MarginProcessor_process :: "config \<Rightarrow> container \<Rightarrow> error + container" where
  "MarginProcessor_process config c =
     (let padding_size =
            py_int (get_white_margin_width config * of_int (min (get_width c) (get_height c)) / 100)
      in and_then (padding_image (get_watermark_img c) padding_size ''tlr'' (bg_color config))
           (\<lambda>padding_img. Inr (update_watermark_img c padding_img)))"

definition PureWhiteMarginProcessor_process :: "config \<Rightarrow> container \<Rightarrow> error + container" where
  "PureWhiteMarginProcessor_process config c =
     (let padding_size =
            py_int (get_white_margin_width config * of_int (min (get_width c) (get_height c)) / 100)
      in and_then (padding_image (get_watermark_img c) padding_size ''tlrb'' (bg_color config))
           (\<lambda>padding_img. Inr (update_watermark_img c padding_img)))"

section \<open>PaddingToOriginalRatio\<close>

definition PaddingToOriginalRatioProcessor_process :: "container \<Rightarrow> error + container" where
  "PaddingToOriginalRatioProcessor_process c =
     (let original_ratio = get_original_ratio c
      in and_then (get_ratio c) (\<lambda>ratio.
           if original_ratio > ratio then
             and_then (py_truediv (of_int (get_width c)) original_ratio) (\<lambda>q.
               let padding_size = py_int (q - of_int (get_height c))
               in and_then (expand (get_watermark_img c) (border2 (0, padding_size)) (ColourStr ''white''))
                    (\<lambda>padding_img. Inr (update_watermark_img c padding_img)))
           else
             (let padding_size = py_int (of_int (get_height c) * original_ratio - of_int (get_width c))
              in and_then (expand (get_watermark_img c) (border2 (padding_size, 0)) (ColourStr ''white''))
                   (\<lambda>padding_img. Inr (update_watermark_img c padding_img)))))"

section \<open>BackgroundBlur\<close>

definition PADDING_PERCENT_IN_BACKGROUND :: real where
  "PADDING_PERCENT_IN_BACKGROUND = 18 / 100"

definition GAUSSIAN_KERNEL_RADIUS :: int where
  "GAUSSIAN_KERNEL_RADIUS = 75"

definition BackgroundBlurProcessor_process :: "container \<Rightarrow> error + container" where
  "BackgroundBlurProcessor_process c =
     (let background = get_watermark_img c;
          background = GaussianBlur background GAUSSIAN_KERNEL_RADIUS
      in and_then (Image_new_checked (im_size background) (RGB 255 255 255)) (\<lambda>fg.
         and_then (blend background fg (1 / 10)) (\<lambda>background.
         and_then (resize background
                     (py_int (of_int (get_width c) * (1 + PADDING_PERCENT_IN_BACKGROUND)),
                      py_int (of_int (get_height c) * (1 + PADDING_PERCENT_IN_BACKGROUND)))) (\<lambda>background.
         let background = Pasted background (get_watermark_img c)
                            (py_int (of_int (get_width c) * PADDING_PERCENT_IN_BACKGROUND / 2))
                            (py_int (of_int (get_height c) * PADDING_PERCENT_IN_BACKGROUND / 2))
         in Inr (update_watermark_img c background)))))"

section \<open>The collaborators outside the stages\<close>

text \<open>
  The text rasteriser \<^verbatim>\<open>text_to_image(text, font, bold_font, is_bold, fill)\<close> and the
  decorations \<^verbatim>\<open>add_rounded_corners(image, radius)\<close> and
  \<^verbatim>\<open>add_soft_shadow(image, radius, offset, opacity)\<close> are black boxes to the stages:
  they are parameters of the model, with \<open>to_px\<close>, the rounding of
  \<^verbatim>\<open>resize_image_with_width\<close>.
\<close>

record utils =
  text_to_image :: "string \<Rightarrow> string \<Rightarrow> string \<Rightarrow> bool \<Rightarrow> colour \<Rightarrow> image"
  add_rounded_corners :: "image \<Rightarrow> int \<Rightarrow> image"
  add_soft_shadow :: "image \<Rightarrow> int \<Rightarrow> int \<times> int \<Rightarrow> int \<Rightarrow> image"
  to_px :: "real \<Rightarrow> int"

section \<open>Watermark stage family\<close>

definition NORMAL_HEIGHT :: int where
  "NORMAL_HEIGHT = 1000"

definition LINE_GRAY :: image where
  "LINE_GRAY = Image_new 20 1000 GRAY"

definition LINE_TRANSPARENT :: image where
  "LINE_TRANSPARENT = Image_new 20 1000 TRANSPARENT"

definition default_padding_location :: string where
  "default_padding_location = ''tb''"

record watermark_processor =
  logo_position :: pyval
  logo_enable :: bool
  self_bg_color :: colour
  line_color :: colour
  font_color_lt :: colour
  bold_font_lt :: bool
  font_color_lb :: colour
  bold_font_lb :: bool
  font_color_rt :: colour
  bold_font_rt :: bool
  font_color_rb :: colour
  bold_font_rb :: bool

definition WatermarkProcessor_init :: watermark_processor where
  "WatermarkProcessor_init =
     \<lparr>logo_position = PyStr ''left'', logo_enable = True, self_bg_color = ColourStr ''#ffffff'',
      line_color = GRAY,
      font_color_lt = ColourStr ''#212121'', bold_font_lt = True,
      font_color_lb = ColourStr ''#424242'', bold_font_lb = False,
      font_color_rt = ColourStr ''#212121'', bold_font_rt = True,
      font_color_rb = ColourStr ''#424242'', bold_font_rb = False\<rparr>"

definition WatermarkRightLogoProcessor_init :: watermark_processor where
  "WatermarkRightLogoProcessor_init = WatermarkProcessor_init\<lparr>logo_position := PyStr ''right''\<rparr>"

definition WatermarkLeftLogoProcessor_init :: watermark_processor where
  "WatermarkLeftLogoProcessor_init = WatermarkProcessor_init\<lparr>logo_position := PyStr ''left''\<rparr>"

definition dark_palette :: "watermark_processor \<Rightarrow> watermark_processor" where
  "dark_palette self =
     self\<lparr>self_bg_color := ColourStr ''#212121'', line_color := GRAY,
          font_color_lt := ColourStr ''#D32F2F'', bold_font_lt := True,
          font_color_lb := ColourStr ''#d4d1cc'', bold_font_lb := False,
          font_color_rt := ColourStr ''#D32F2F'', bold_font_rt := True,
          font_color_rb := ColourStr ''#d4d1cc'', bold_font_rb := False\<rparr>"

definition DarkWatermarkRightLogoProcessor_init :: watermark_processor where
  "DarkWatermarkRightLogoProcessor_init = dark_palette WatermarkRightLogoProcessor_init"

definition DarkWatermarkLeftLogoProcessor_init :: watermark_processor where
  "DarkWatermarkLeftLogoProcessor_init = dark_palette WatermarkLeftLogoProcessor_init"

definition CustomWatermarkProcessor_init :: "config \<Rightarrow> watermark_processor" where
  "CustomWatermarkProcessor_init config =
     WatermarkProcessor_init
       \<lparr>logo_position := is_logo_left config,
        logo_enable := has_logo_enabled config,
        self_bg_color := get_background_color config,
        font_color_lt := get_color (get_left_top config),
        bold_font_lt := is_bold (get_left_top config),
        font_color_lb := get_color (get_left_bottom config),
        bold_font_lb := is_bold (get_left_bottom config),
        font_color_rt := get_color (get_right_top config),
        bold_font_rt := is_bold (get_right_top config),
        font_color_rb := get_color (get_right_bottom config),
        bold_font_rb := is_bold (get_right_bottom config)\<rparr>"

definition WatermarkProcessor_is_logo_left :: "watermark_processor \<Rightarrow> bool" where
  "WatermarkProcessor_is_logo_left self = (logo_position self = PyStr ''left'')"

text \<open>Lines 171 to 175 of \<^verbatim>\<open>WatermarkProcessor.process\<close>: the two text columns are brought to
  one height.\<close>

definition normalize_columns :: "image \<Rightarrow> image \<Rightarrow> real \<Rightarrow> error + image \<times> image" where
  "normalize_columns left right padding_ratio =
     (let max_height = max (height left) (height right)
      in and_then (padding_image left (py_int (of_int max_height * padding_ratio)) ''tb'' Unset) (\<lambda>left.
         and_then (padding_image right (py_int (of_int max_height * padding_ratio)) ''t'' Unset) (\<lambda>right.
         and_then (padding_image right (height left - height right) ''b'' Unset) (\<lambda>right.
         Inr (left, right)))))"

text \<open>Lines 177 to 199: the logo, the divider line and the columns are put on the band. Reading
  \<^verbatim>\<open>logo.height\<close> of an absent logo raises.\<close>

definition assemble_band ::
  "watermark_processor \<Rightarrow> image \<Rightarrow> image option \<Rightarrow> image \<Rightarrow> image \<Rightarrow> real \<Rightarrow> error + image" where
  "assemble_band self watermark logo left right padding_ratio =
     (if logo_enable self then
        if WatermarkProcessor_is_logo_left self then
          (let line = LINE_TRANSPARENT
           in case logo of
                None \<Rightarrow> Inl AttributeError
              | Some lg \<Rightarrow>
                  and_then (padding_image lg (py_int (padding_ratio * of_int (height lg)))
                              default_padding_location Unset) (\<lambda>lg.
                  let logo = Some lg;
                      watermark = append_image_by_side watermark [Some line, logo, Some left]
                                    ''left'' (logo = None);
                      watermark = append_image_by_side watermark [Some right] ''right'' False
                  in Inr watermark))
        else
          and_then
            (case logo of
               Some lg \<Rightarrow>
                 and_then (padding_image lg (py_int (padding_ratio * of_int (height lg)))
                             default_padding_location Unset) (\<lambda>lg.
                 and_then (padding_image LINE_GRAY
                             (py_int (padding_ratio * of_int (height LINE_GRAY) * (8 / 10)))
                             default_padding_location Unset) (\<lambda>line.
                 Inr (Some lg, line)))
             | None \<Rightarrow> Inr (None, LINE_TRANSPARENT))
            (\<lambda>(logo, line).
               let watermark = append_image_by_side watermark [Some left] ''left'' True;
                   watermark = append_image_by_side watermark [logo, Some line, Some right]
                                 ''right'' False
               in Inr watermark)
      else
        (let watermark = append_image_by_side watermark [Some left] ''left'' True;
             watermark = append_image_by_side watermark [Some right] ''right'' False
         in Inr watermark))"

text \<open>The whole stage. It writes its background colour into the shared config, so the
  config is returned with the container.\<close>

definition WatermarkProcessor_process ::
  "utils \<Rightarrow> watermark_processor \<Rightarrow> config \<Rightarrow> container \<Rightarrow> error + config \<times> container" where
  "WatermarkProcessor_process u self config0 c =
     (let config = config0\<lparr>bg_color := self_bg_color self\<rparr>
      in and_then (get_ratio c) (\<lambda>r.
         let ratio = (if r \<ge> 1 then 4 / 100 else 9 / 100)
                       + 2 / 100 * of_int (get_font_padding_level config);
             padding_ratio = (if r \<ge> 1 then 52 / 100 else 7 / 10)
                               - 4 / 100 * of_int (get_font_padding_level config)
         in and_then (py_truediv (of_int NORMAL_HEIGHT) ratio) (\<lambda>q.
            and_then (Image_new_checked (py_int q, NORMAL_HEIGHT) (self_bg_color self)) (\<lambda>watermark.
            and_then (Image_new_checked (10, 100) (self_bg_color self)) (\<lambda>empty_padding.
            let left_top = text_to_image u (get_attribute_str c (get_left_top config))
                             (get_font config) (get_bold_font config)
                             (bold_font_lt self) (font_color_lt self);
                left_bottom = text_to_image u (get_attribute_str c (get_left_bottom config))
                                (get_font config) (get_bold_font config)
                                (bold_font_lb self) (font_color_lb self);
                left = concatenate_image [left_top, empty_padding, left_bottom];
                right_top = text_to_image u (get_attribute_str c (get_right_top config))
                              (get_font config) (get_bold_font config)
                              (bold_font_rt self) (font_color_rt self);
                right_bottom = text_to_image u (get_attribute_str c (get_right_bottom config))
                                 (get_font config) (get_bold_font config)
                                 (bold_font_rb self) (font_color_rb self);
                right = concatenate_image [right_top, empty_padding, right_bottom]
            in and_then (normalize_columns left right padding_ratio) (\<lambda>(left, right).
               and_then (assemble_band self watermark (load_logo config (get_make c))
                           left right padding_ratio) (\<lambda>watermark.
               and_then (resize_image_with_width (to_px u) watermark (get_width c)) (\<lambda>watermark.
               and_then (expand (convert (get_watermark_img c) ''RGBA'')
                           (0, 0, 0, height watermark) (self_bg_color self)) (\<lambda>bg.
               and_then (expand watermark (0, get_height c, 0, 0) TRANSPARENT) (\<lambda>fg.
               and_then (alpha_composite bg fg) (\<lambda>result.
               let result = convert (exif_transpose result) ''RGB''
               in Inr (config, update_watermark_img c result))))))))))))"

section \<open>BackgroundBlurWithParams\<close>

text \<open>Line 470: the width-driven scale, with its guard against a zero divisor.\<close>

definition text_width_scale :: "int \<Rightarrow> int \<Rightarrow> error + real" where
  "text_width_scale max_text_width max_text_image_width =
     (if max_text_image_width > 0
      then py_truediv (of_int max_text_width) (of_int max_text_image_width)
      else Inr 1)"

text \<open>Lines 460 to 484: both text bitmaps are scaled by one factor.\<close>

definition scale_text_images :: "int \<Rightarrow> int \<Rightarrow> image \<Rightarrow> image \<Rightarrow> error + image \<times> image" where
  "scale_text_images params_area_height max_text_width model_image param_image =
     (let total_text_height = height model_image + height param_image + 10
      in if total_text_height > 0 then
           and_then (py_truediv (of_int params_area_height) (of_int total_text_height)) (\<lambda>height_scale.
           let max_text_image_width = max (width model_image) (width param_image)
           in and_then (text_width_scale max_text_width max_text_image_width) (\<lambda>width_scale.
              let scale_factor = min height_scale width_scale
              in and_then (if height model_image > 0
                           then resize model_image
                                  (py_int (of_int (width model_image) * scale_factor),
                                   py_int (of_int (height model_image) * scale_factor))
                           else Inr model_image) (\<lambda>model_image.
                 and_then (if height param_image > 0
                           then resize param_image
                                  (py_int (of_int (width param_image) * scale_factor),
                                   py_int (of_int (height param_image) * scale_factor))
                           else Inr param_image) (\<lambda>param_image.
                 Inr (model_image, param_image)))))
         else Inr (model_image, param_image))"

text \<open>Lines 486 to 498: where the two text bitmaps are pasted, as
  \<open>((model_x, model_y), (param_x, param_y))\<close>.\<close>

definition text_positions ::
  "int \<Rightarrow> int \<Rightarrow> int \<Rightarrow> int \<Rightarrow> image \<Rightarrow> image \<Rightarrow> (int \<times> int) \<times> (int \<times> int)" where
  "text_positions final_width final_height params_area_height top_padding model_image param_image =
     (let total_text_height = height model_image + height param_image + 10;
          start_y = final_height - params_area_height
                      + (params_area_height - total_text_height) div 2 - top_padding;
          model_x = (final_width - width model_image) div 2;
          model_y = start_y;
          param_x = (final_width - width param_image) div 2;
          param_y = start_y - height model_image + 10
      in ((model_x, model_y), (param_x, param_y)))"

definition BackgroundBlurWithParamsProcessor_process ::
  "utils \<Rightarrow> config \<Rightarrow> container \<Rightarrow> error + container" where
  "BackgroundBlurWithParamsProcessor_process u config c =
     (let params_area_height = py_int (of_int (get_height c) * (8 / 100));
          final_width = py_int (of_int (get_width c) * (1 + PADDING_PERCENT_IN_BACKGROUND));
          final_height = py_int (of_int (get_height c) * (1 + PADDING_PERCENT_IN_BACKGROUND))
                           + params_area_height;
          total_padding_height = py_int (of_int (get_height c) * PADDING_PERCENT_IN_BACKGROUND);
          top_padding = total_padding_height div 10;
          bottom_padding = total_padding_height - top_padding
      in and_then (resize (get_watermark_img c) (final_width, final_height)) (\<lambda>enlarged_img.
         let background = GaussianBlur enlarged_img GAUSSIAN_KERNEL_RADIUS
         in and_then (Image_new_checked (im_size background) (RGB 255 255 255)) (\<lambda>fg.
            and_then (blend background fg (1 / 10)) (\<lambda>background.
            let model_text = get_model c;
                param_text = get_param_str c;
                model_image = text_to_image u model_text (get_font config) (get_bold_font config)
                                True (ColourStr ''#F5F5F5'');
                param_image = text_to_image u param_text (get_font config) (get_bold_font config)
                                False (ColourStr ''#F5F5F5'');
                max_text_width = py_int (of_int (get_width c) * (75 / 100))
            in and_then (scale_text_images params_area_height max_text_width model_image param_image)
                 (\<lambda>(model_image, param_image).
                    case text_positions final_width final_height params_area_height top_padding
                           model_image param_image of
                      ((model_x, model_y), (param_x, param_y)) \<Rightarrow>
                        let background = Pasted background model_image model_x model_y;
                            background = Pasted background param_image param_x param_y;
                            original_img = get_watermark_img c;
                            rounded_radius = py_int (of_int (get_width c) * (1 / 100));
                            rounded_img = add_rounded_corners u original_img rounded_radius;
                            shadow_img = add_soft_shadow u rounded_img 15 (5, 5) 128;
                            original_x = py_int (of_int (get_width c) * PADDING_PERCENT_IN_BACKGROUND / 2)
                                           - 15 + 5;
                            original_y = py_int (of_int (get_height c) * PADDING_PERCENT_IN_BACKGROUND / 2)
                                           - top_padding - 15 + 5;
                            background = Pasted background shadow_img original_x original_y
                        in Inr (update_watermark_img c background))))))"

section \<open>Example inputs\<close>

text \<open>A config, a photo container and stand-ins for the outside collaborators, for the
  concrete runs below.\<close>

definition plain_element :: element where
  "plain_element = \<lparr>get_name = ''Model'', get_color = ColourStr ''#212121'', is_bold = False\<rparr>"

definition demo_config :: "real \<Rightarrow> int \<Rightarrow> pyval \<Rightarrow> image option \<Rightarrow> config" where
  "demo_config margin level pos logo =
     \<lparr>bg_color = ColourStr ''#ffffff'', get_background_color = ColourStr ''#ffffff'',
      is_logo_left = pos, has_logo_enabled = True,
      get_left_top = plain_element, get_left_bottom = plain_element,
      get_right_top = plain_element, get_right_bottom = plain_element,
      get_font = ''regular'', get_bold_font = ''bold'',
      get_font_padding_level = level, get_white_margin_width = margin,
      load_logo = (\<lambda>m. logo)\<rparr>"

definition photo :: "int \<Rightarrow> int \<Rightarrow> real \<Rightarrow> container" where
  "photo w h r =
     \<lparr>img = Bitmap w h None, watermark_img = Bitmap w h None, original_ratio = r,
      get_make = ''NIKON'', get_model = ''Z 30'', get_param_str = ''50mm f/1.8 1/100s ISO100'',
      get_attribute_str = get_name\<rparr>"

definition demo_utils :: utils where
  "demo_utils =
     \<lparr>text_to_image = (\<lambda>text font bold_font bold fill. Bitmap (60 * int (length text)) 100 None),
      add_rounded_corners = (\<lambda>i radius. i),
      add_soft_shadow = (\<lambda>i radius offset opacity. Bitmap (width i + 40) (height i + 40) None),
      to_px = floor\<rparr>"

text \<open>The band the left-logo processor assembles for a 4000 by 3000 photo with a 500 by 300
  logo, after rescaling.\<close>

definition demo_band :: image where
  "demo_band =
     Resized
       (Appended
          (Appended (Image_new 25000 1000 (ColourStr ''#ffffff''))
             [Some (Image_new 20 1000 TRANSPARENT),
              Some (Pasted (Image_new 500 612 Unset) (Bitmap 500 300 None) 0 156),
              Some (Pasted (Image_new 300 612 Unset)
                      (Concatenated [Bitmap 300 100 None, Image_new 10 100 (ColourStr ''#ffffff''),
                                     Bitmap 300 100 None]) 0 156)]
             ''left'' False)
          [Some (Pasted (Image_new 300 612 Unset)
                   (Pasted (Image_new 300 456 Unset)
                      (Concatenated [Bitmap 300 100 None, Image_new 10 100 (ColourStr ''#ffffff''),
                                     Bitmap 300 100 None]) 0 156) 0 0)]
          ''right'' False)
       4000 160"

section \<open>Properties\<close>

subsection \<open>Basic facts\<close>

text \<open>Sequencing of fallible steps, truncation to pixels, and the sizes the library's
  operations return.\<close>

lemma and_then_Inr [simp]: "and_then (Inr x) f = f x"
  by (simp add: and_then_def)

lemma and_then_Inl [simp]: "and_then (Inl e) f = Inl e"
  by (simp add: and_then_def)

lemma and_then_eq_Inl_iff:
  "and_then r f = Inl e \<longleftrightarrow> r = Inl e \<or> (\<exists>x. r = Inr x \<and> f x = Inl e)"
  by (cases r) (simp_all add: and_then_def)

lemma and_then_eq_Inr_iff:
  "and_then r f = Inr y \<longleftrightarrow> (\<exists>x. r = Inr x \<and> f x = Inr y)"
  by (cases r) (simp_all add: and_then_def)

lemma py_int_nonneg: "0 \<le> x \<Longrightarrow> py_int x = \<lfloor>x\<rfloor>"
  by (simp add: py_int_def)

lemma py_int_nonneg_ge: "0 \<le> x \<Longrightarrow> 0 \<le> py_int x"
  by (simp add: py_int_def)

lemma py_int_nonpos: "x \<le> 0 \<Longrightarrow> py_int x \<le> 0"
  by (simp add: py_int_def ceiling_le_iff)

lemma py_int_le: "0 \<le> x \<Longrightarrow> real_of_int (py_int x) \<le> x"
  by (simp add: py_int_def)

lemma py_int_le_int: "0 \<le> x \<Longrightarrow> x \<le> of_int k \<Longrightarrow> py_int x \<le> k"
  by (simp add: py_int_def floor_le_iff)

lemma Image_new_checked_ok:
  "0 \<le> w \<Longrightarrow> 0 \<le> h \<Longrightarrow> Image_new_checked (w, h) c = Inr (Image_new w h c)"
  by (simp add: Image_new_checked_def)

lemma resize_ok:
  assumes "1 \<le> w" and "1 \<le> h"
  shows "\<exists>r. resize i (w, h) = Inr r \<and> im_size r = (w, h)"
proof (cases "im_size i = (w, h)")
  case True
  then show ?thesis by (simp add: resize_def)
next
  case False
  then show ?thesis using assms by (simp add: resize_def)
qed

lemma resize_size: "resize i sz = Inr r \<Longrightarrow> im_size r = sz"
  by (auto simp: resize_def split: if_splits)

lemma expand_size:
  "expand i (l, t, r, b) fill = Inr out \<Longrightarrow>
     out = Pasted (Image_new (l + width i + r) (t + height i + b) fill) i l t"
  by (auto simp: expand_def and_then_eq_Inr_iff Image_new_checked_def split: if_splits)

lemma padding_image_tb:
  assumes "0 \<le> n" and "0 \<le> width i" and "0 \<le> height i"
  shows "padding_image i n default_padding_location c =
           Inr (Pasted (Image_new (width i) (height i + n + n) c) i 0 n)"
  using assms by (simp add: padding_image_def default_padding_location_def Image_new_checked_def Let_def)

lemma alpha_composite_Inr:
  "alpha_composite a b = Inr r \<Longrightarrow> r = AlphaComposite a b \<and> im_size a = im_size b"
  by (auto simp: alpha_composite_def split: if_splits)

subsection \<open>Margin stages\<close>

text \<open>
  Claim C6. For a working image of width \<open>W\<close> and height \<open>H\<close> and a margin-width percent
  \<open>p \<ge> 0\<close>, let \<open>t = \<lfloor>p * min W H / 100\<rfloor>\<close>. The margin stage returns a canvas of
  \<open>W + 2t\<close> by \<open>H + t\<close> with the photo pasted at \<open>(t, t)\<close>: a border of \<open>t\<close> on the top, the
  left and the right, none at the bottom. The pure-white-margin stage returns a canvas of
  \<open>W + 2t\<close> by \<open>H + 2t\<close> with the photo at \<open>(t, t)\<close>: a border of \<open>t\<close> on all four sides.
\<close>

theorem margin_border_thickness:
  assumes "0 \<le> get_white_margin_width config"
    and "im_size (watermark_img c) = (W, H)" and "0 \<le> W" and "0 \<le> H"
  shows "let t = \<lfloor>get_white_margin_width config * of_int (min W H) / 100\<rfloor> in
     MarginProcessor_process config c =
       Inr (c\<lparr>watermark_img :=
              Pasted (Image_new (W + t + t) (H + t) (bg_color config)) (watermark_img c) t t\<rparr>) \<and>
     PureWhiteMarginProcessor_process config c =
       Inr (c\<lparr>watermark_img :=
              Pasted (Image_new (W + t + t) (H + t + t) (bg_color config)) (watermark_img c) t t\<rparr>)"
proof -
  define t where "t = \<lfloor>get_white_margin_width config * of_int (min W H) / 100\<rfloor>"
  have x0: "0 \<le> get_white_margin_width config * of_int (min W H) / 100" using assms by simp
  then have t0: "0 \<le> t" unfolding t_def by simp
  have pi: "py_int (get_white_margin_width config * of_int (min W H) / 100) = t"
    unfolding t_def using x0 by (rule py_int_nonneg)
  have wh: "get_width c = W" "get_height c = H"
    using assms(2) by (simp_all add: get_width_def get_height_def get_watermark_img_def width_def height_def)
  have "MarginProcessor_process config c =
       Inr (c\<lparr>watermark_img :=
              Pasted (Image_new (W + t + t) (H + t) (bg_color config)) (watermark_img c) t t\<rparr>)"
    using t0 assms(3,4)
    by (simp add: MarginProcessor_process_def wh pi padding_image_def Image_new_checked_def
        and_then_def Let_def get_watermark_img_def update_watermark_img_def width_def height_def assms(2))
  moreover have "PureWhiteMarginProcessor_process config c =
       Inr (c\<lparr>watermark_img :=
              Pasted (Image_new (W + t + t) (H + t + t) (bg_color config)) (watermark_img c) t t\<rparr>)"
    using t0 assms(3,4)
    by (simp add: PureWhiteMarginProcessor_process_def wh pi padding_image_def Image_new_checked_def
        and_then_def Let_def get_watermark_img_def update_watermark_img_def width_def height_def assms(2))
  ultimately show ?thesis unfolding t_def Let_def by simp
qed

text \<open>A 3000 by 4000 photo with margin width 5: the border is 150 pixels, the pure white
  margin gives 3300 by 4300, the margin stage 3300 by 4150.\<close>

theorem margin_border_thickness_witness:
  "PureWhiteMarginProcessor_process (demo_config 5 0 (PyStr ''left'') None) (photo 3000 4000 (3/4)) =
     Inr ((photo 3000 4000 (3/4))\<lparr>watermark_img :=
            Pasted (Image_new 3300 4300 (ColourStr ''#ffffff'')) (Bitmap 3000 4000 None) 150 150\<rparr>)
   \<and> MarginProcessor_process (demo_config 5 0 (PyStr ''left'') None) (photo 3000 4000 (3/4)) =
     Inr ((photo 3000 4000 (3/4))\<lparr>watermark_img :=
            Pasted (Image_new 3300 4150 (ColourStr ''#ffffff'')) (Bitmap 3000 4000 None) 150 150\<rparr>)"
  using margin_border_thickness [of "demo_config 5 0 (PyStr ''left'') None" "photo 3000 4000 (3/4)" 3000 4000]
  by (simp add: demo_config_def photo_def Let_def)

subsection \<open>Watermark: the two text columns\<close>

text \<open>
  Claim C1. For any two text columns (whatever the quadrant strings rendered to, empty ones
  included), the normalisation of lines 171 to 175 takes the taller column's height, pads the
  left column by \<open>p = int(max_height * padding_ratio)\<close> on top and bottom, pads the right column
  by \<open>p\<close> on top only, then pads the right column's bottom by the difference to the left
  column's final height. Both columns end with the height \<open>left.height + 2p\<close>. The step can
  only raise when the padding ratio is negative.
\<close>

theorem columns_equal_height:
  assumes "0 \<le> width left" and "0 \<le> height left"
    and "0 \<le> width right" and "0 \<le> height right"
  shows "case normalize_columns left right padding_ratio of
           Inl e \<Rightarrow> padding_ratio < 0
         | Inr (l, r) \<Rightarrow>
             (let p = py_int (of_int (max (height left) (height right)) * padding_ratio) in
              height l = height r \<and> height l = height left + p + p \<and>
              l = Pasted (Image_new (width left) (height left + p + p) Unset) left 0 p \<and>
              r = Pasted (Image_new (width right) (height left + p + p) Unset)
                    (Pasted (Image_new (width right) (height right + p) Unset) right 0 p) 0 0)"
proof -
  define p where "p = py_int (of_int (max (height left) (height right)) * padding_ratio)"
  have norm: "normalize_columns left right padding_ratio =
      and_then (Image_new_checked (width left, height left + p + p) Unset) (\<lambda>cl.
      and_then (Image_new_checked (width right, height right + p) Unset) (\<lambda>cr.
      and_then (Image_new_checked (width right, height left + p + p) Unset) (\<lambda>cr2.
        Inr (Pasted cl left 0 p, Pasted cr2 (Pasted cr right 0 p) 0 0))))"
    unfolding normalize_columns_def padding_image_def Let_def p_def [symmetric]
    by (simp add: and_then_def width_def height_def Image_new_checked_def split: sum.splits)
  show ?thesis
  proof (cases "0 \<le> padding_ratio")
    case True
    then have "0 \<le> of_int (max (height left) (height right)) * padding_ratio"
      using assms by simp
    then have p0: "0 \<le> p" unfolding p_def by (simp add: py_int_def)
    show ?thesis
      unfolding norm p_def [symmetric] Let_def using p0 assms
      by (simp add: Image_new_checked_ok height_def width_def)
  next
    case False
    then show ?thesis
      unfolding norm p_def [symmetric] Let_def
      by (simp add: Image_new_checked_def and_then_def height_def width_def split: sum.splits)
  qed
qed

text \<open>A left column of height 210 and a right column of height 100 at padding ratio 0.52:
  both end 428 pixels high.\<close>

theorem columns_equal_height_witness:
  "normalize_columns (Bitmap 600 210 None) (Bitmap 900 100 None) (52 / 100) =
     Inr (Pasted (Image_new 600 428 Unset) (Bitmap 600 210 None) 0 109,
          Pasted (Image_new 900 428 Unset)
            (Pasted (Image_new 900 209 Unset) (Bitmap 900 100 None) 0 109) 0 0)"
  using columns_equal_height [of "Bitmap 600 210 None" "Bitmap 900 100 None" "52 / 100"]
  by (simp add: width_def height_def py_int_def Let_def split: sum.splits prod.splits)

subsection \<open>Watermark: the custom variant's logo side\<close>

text \<open>
  Claim C10. When the config's \<^verbatim>\<open>is_logo_left()\<close> returns a boolean \<open>b\<close>, the custom watermark
  processor stores \<open>b\<close> in \<open>logo_position\<close>; its \<^verbatim>\<open>is_logo_left\<close> compares that field with the
  string \<open>'left'\<close> and is false for both booleans, so the band is assembled, and the whole
  stage runs, exactly as for a processor whose logo position is \<open>'right'\<close>.
\<close>

theorem custom_logo_never_left:
  assumes "is_logo_left config = PyBool b"
  shows "logo_position (CustomWatermarkProcessor_init config) = PyBool b \<and>
         WatermarkProcessor_is_logo_left (CustomWatermarkProcessor_init config) = False \<and>
         assemble_band (CustomWatermarkProcessor_init config) watermark logo left right padding_ratio =
           assemble_band ((CustomWatermarkProcessor_init config)\<lparr>logo_position := PyStr ''right''\<rparr>)
             watermark logo left right padding_ratio \<and>
         WatermarkProcessor_process u (CustomWatermarkProcessor_init config) config c =
           WatermarkProcessor_process u
             ((CustomWatermarkProcessor_init config)\<lparr>logo_position := PyStr ''right''\<rparr>) config c"
proof -
  let ?self = "CustomWatermarkProcessor_init config"
  have pos: "logo_position ?self = PyBool b"
    using assms by (simp add: CustomWatermarkProcessor_init_def)
  then have nl: "WatermarkProcessor_is_logo_left ?self = False"
    by (simp add: WatermarkProcessor_is_logo_left_def)
  have nr: "WatermarkProcessor_is_logo_left (?self\<lparr>logo_position := PyStr ''right''\<rparr>) = False"
    by (simp add: WatermarkProcessor_is_logo_left_def)
  have asm: "\<And>wm lg l r pr. assemble_band ?self wm lg l r pr =
      assemble_band (?self\<lparr>logo_position := PyStr ''right''\<rparr>) wm lg l r pr"
    unfolding assemble_band_def nl nr by simp
  have "WatermarkProcessor_process u ?self config c =
      WatermarkProcessor_process u (?self\<lparr>logo_position := PyStr ''right''\<rparr>) config c"
    unfolding WatermarkProcessor_process_def asm by simp
  with pos nl asm show ?thesis by simp
qed

text \<open>Both booleans, on a concrete config.\<close>

theorem custom_logo_never_left_witness:
  "WatermarkProcessor_is_logo_left
     (CustomWatermarkProcessor_init (demo_config 5 0 (PyBool True) None)) = False \<and>
   WatermarkProcessor_is_logo_left
     (CustomWatermarkProcessor_init (demo_config 5 0 (PyBool False) None)) = False"
  using custom_logo_never_left [of "demo_config 5 0 (PyBool True) None" True]
    custom_logo_never_left [of "demo_config 5 0 (PyBool False) None" False]
  by (simp add: demo_config_def)

subsection \<open>BackgroundBlur\<close>

lemma floor_half_of_floor:
  fixes x :: real
  shows "\<lfloor>x / 2\<rfloor> = \<lfloor>x\<rfloor> div 2"
proof -
  have "\<lfloor>x / 2\<rfloor> = \<lfloor>x / of_int 2\<rfloor>" by simp
  also have "\<dots> = \<lfloor>x\<rfloor> div 2" by (rule floor_divide_real_eq_div) simp
  finally show ?thesis .
qed

lemma blur_offset_centres:
  assumes "0 \<le> n"
  shows "py_int (of_int n * PADDING_PERCENT_IN_BACKGROUND / 2) =
         (py_int (of_int n * (1 + PADDING_PERCENT_IN_BACKGROUND)) - n) div 2"
proof -
  define x where "x = real_of_int n * PADDING_PERCENT_IN_BACKGROUND"
  have x0: "0 \<le> x" unfolding x_def PADDING_PERCENT_IN_BACKGROUND_def using assms by simp
  have e: "real_of_int n * (1 + PADDING_PERCENT_IN_BACKGROUND) = of_int n + x"
    unfolding x_def by (simp add: algebra_simps)
  have a: "py_int (x / 2) = \<lfloor>x\<rfloor> div 2"
    using x0 by (simp add: py_int_def floor_half_of_floor)
  have "0 \<le> of_int n + x" using x0 assms by simp
  then have "py_int (of_int n + x) = \<lfloor>of_int n + x\<rfloor>" by (simp add: py_int_def)
  also have "\<dots> = n + \<lfloor>x\<rfloor>" by (rule int_add_floor [symmetric])
  finally have b: "py_int (of_int n + x) = n + \<lfloor>x\<rfloor>" .
  show ?thesis unfolding e x_def [symmetric] a b by simp
qed

lemma blur_size_floor:
  assumes "0 \<le> n"
  shows "py_int (of_int n * (1 + PADDING_PERCENT_IN_BACKGROUND)) = \<lfloor>of_int n * (118 / 100 :: real)\<rfloor>"
  using assms by (simp add: py_int_def PADDING_PERCENT_IN_BACKGROUND_def)

lemma blur_size_grows:
  assumes "0 < n"
  shows "n \<le> py_int (of_int n * (1 + PADDING_PERCENT_IN_BACKGROUND))"
proof -
  have "real_of_int n \<le> of_int n * (1 + PADDING_PERCENT_IN_BACKGROUND)"
    using assms by (simp add: PADDING_PERCENT_IN_BACKGROUND_def algebra_simps)
  then have "n \<le> \<lfloor>of_int n * (1 + PADDING_PERCENT_IN_BACKGROUND)\<rfloor>"
    by (simp add: le_floor_iff)
  moreover have "0 \<le> real_of_int n * (1 + PADDING_PERCENT_IN_BACKGROUND)"
    using assms by (simp add: PADDING_PERCENT_IN_BACKGROUND_def)
  ultimately show ?thesis by (simp add: py_int_def)
qed

text \<open>
  Claim C7. For a working image of \<open>N\<close> by \<open>M\<close> pixels the stage returns a backdrop of exactly
  \<open>\<lfloor>N * 1.18\<rfloor>\<close> by \<open>\<lfloor>M * 1.18\<rfloor>\<close> pixels, which is the blurred image blended one tenth
  toward white and resized, with the sharp working image pasted at the centring offset
  \<open>((\<lfloor>N * 1.18\<rfloor> - N) div 2, (\<lfloor>M * 1.18\<rfloor> - M) div 2)\<close>.
\<close>

theorem background_blur_dimensions:
  assumes "im_size (watermark_img c) = (N, M)" and "0 < N" and "0 < M"
  shows "\<exists>backdrop.
           BackgroundBlurProcessor_process c =
             Inr (c\<lparr>watermark_img := Pasted backdrop (watermark_img c)
                    ((\<lfloor>of_int N * (118 / 100 :: real)\<rfloor> - N) div 2)
                    ((\<lfloor>of_int M * (118 / 100 :: real)\<rfloor> - M) div 2)\<rparr>) \<and>
           im_size backdrop = (\<lfloor>of_int N * (118 / 100 :: real)\<rfloor>, \<lfloor>of_int M * (118 / 100 :: real)\<rfloor>) \<and>
           resize (Blended (GaussianBlur (watermark_img c) 75) (Image_new N M (RGB 255 255 255)) (1 / 10))
             (\<lfloor>of_int N * (118 / 100 :: real)\<rfloor>, \<lfloor>of_int M * (118 / 100 :: real)\<rfloor>) = Inr backdrop"
proof -
  let ?N' = "py_int (of_int N * (1 + PADDING_PERCENT_IN_BACKGROUND))"
  let ?M' = "py_int (of_int M * (1 + PADDING_PERCENT_IN_BACKGROUND))"
  let ?B = "Blended (GaussianBlur (watermark_img c) 75) (Image_new N M (RGB 255 255 255)) (1 / 10)"
  have wh: "get_width c = N" "get_height c = M"
    using assms(1) by (simp_all add: get_width_def get_height_def get_watermark_img_def width_def height_def)
  have N1: "1 \<le> ?N'" using blur_size_grows [OF assms(2)] assms(2) by simp
  have M1: "1 \<le> ?M'" using blur_size_grows [OF assms(3)] assms(3) by simp
  obtain backdrop where bd: "resize ?B (?N', ?M') = Inr backdrop" and sz: "im_size backdrop = (?N', ?M')"
    using resize_ok [OF N1 M1] by blast
  have xo: "py_int (of_int N * PADDING_PERCENT_IN_BACKGROUND / 2) = (?N' - N) div 2"
    using assms(2) by (intro blur_offset_centres) simp
  have yo: "py_int (of_int M * PADDING_PERCENT_IN_BACKGROUND / 2) = (?M' - M) div 2"
    using assms(3) by (intro blur_offset_centres) simp
  have run: "BackgroundBlurProcessor_process c =
      Inr (c\<lparr>watermark_img := Pasted backdrop (watermark_img c) ((?N' - N) div 2) ((?M' - M) div 2)\<rparr>)"
    unfolding BackgroundBlurProcessor_process_def Let_def wh xo yo
    using assms(2,3) bd
    by (simp add: get_watermark_img_def assms(1) Image_new_checked_def blend_def
        GAUSSIAN_KERNEL_RADIUS_def update_watermark_img_def)
  have fN: "?N' = \<lfloor>of_int N * (118 / 100 :: real)\<rfloor>" using assms(2) by (intro blur_size_floor) simp
  have fM: "?M' = \<lfloor>of_int M * (118 / 100 :: real)\<rfloor>" using assms(3) by (intro blur_size_floor) simp
  show ?thesis using run bd sz unfolding fN fM by blast
qed

text \<open>A 4000 by 3000 photo becomes 4720 by 3540 with the photo at (360, 270).\<close>

theorem background_blur_dimensions_witness:
  "BackgroundBlurProcessor_process (photo 4000 3000 (4 / 3)) =
     Inr ((photo 4000 3000 (4 / 3))\<lparr>watermark_img :=
       Pasted (Resized (Blended (GaussianBlur (Bitmap 4000 3000 None) 75)
                 (Image_new 4000 3000 (RGB 255 255 255)) (1 / 10)) 4720 3540)
         (Bitmap 4000 3000 None) 360 270\<rparr>)"
  using background_blur_dimensions [of "photo 4000 3000 (4 / 3)" 4000 3000]
  by (auto simp: photo_def resize_def)

subsection \<open>BackgroundBlurWithParams: the text scale\<close>

lemma resize_no_zero_division: "resize i sz \<noteq> Inl ZeroDivisionError"
  by (simp add: resize_def)

lemma Image_new_no_zero_division: "Image_new_checked sz c \<noteq> Inl ZeroDivisionError"
  by (simp add: Image_new_checked_def)

lemma blend_no_zero_division: "blend a b t \<noteq> Inl ZeroDivisionError"
  by (simp add: blend_def)

lemma text_width_scale_total: "text_width_scale max_text_width w \<noteq> Inl ZeroDivisionError"
  by (simp add: text_width_scale_def py_truediv_def)

lemma scale_text_images_total:
  "scale_text_images a mw m p \<noteq> Inl ZeroDivisionError"
proof (cases "height m + height p + 10 > 0")
  case True
  then have "py_truediv (of_int a) (of_int (height m + height p + 10)) \<noteq> Inl ZeroDivisionError"
    by (simp add: py_truediv_def)
  then show ?thesis
    unfolding scale_text_images_def Let_def using True
    by (auto simp: and_then_eq_Inl_iff text_width_scale_total resize_no_zero_division split: if_splits)
next
  case False
  then show ?thesis by (simp add: scale_text_images_def Let_def)
qed

text \<open>
  Claim C9. The width-driven scale never divides by zero: it is the neutral factor 1 when the
  widest text bitmap has no width. The scaling block is skipped, leaving both bitmaps as they
  are, when the combined text height (the two heights and the 10 pixel gap) is not positive.
  Neither the scaling block nor the whole stage can raise \<open>ZeroDivisionError\<close>.
\<close>

theorem scaling_never_divides_by_zero:
  "text_width_scale max_text_width w \<noteq> Inl ZeroDivisionError \<and>
   (w \<le> 0 \<longrightarrow> text_width_scale max_text_width w = Inr 1) \<and>
   (height m + height p + 10 \<le> 0 \<longrightarrow> scale_text_images a max_text_width m p = Inr (m, p)) \<and>
   scale_text_images a max_text_width m p \<noteq> Inl ZeroDivisionError \<and>
   BackgroundBlurWithParamsProcessor_process u config c \<noteq> Inl ZeroDivisionError"
proof -
  have "BackgroundBlurWithParamsProcessor_process u config c \<noteq> Inl ZeroDivisionError"
    unfolding BackgroundBlurWithParamsProcessor_process_def Let_def
    by (auto simp: and_then_eq_Inl_iff resize_no_zero_division Image_new_no_zero_division blend_no_zero_division
          scale_text_images_total split: prod.splits)
  then show ?thesis
    by (simp add: text_width_scale_total scale_text_images_total)
      (simp add: text_width_scale_def scale_text_images_def Let_def)
qed

text \<open>Both guards at concrete values. With the 10 pixel gap counted in, only bitmaps of
  negative height make the combined height non-positive, so the second guard is out of reach
  of any real bitmap.\<close>

theorem scaling_never_divides_by_zero_witness:
  "text_width_scale 750 0 = Inr 1 \<and>
   scale_text_images 80 750 (Bitmap 0 (-5) None) (Bitmap 0 (-5) None)
     = Inr (Bitmap 0 (-5) None, Bitmap 0 (-5) None)"
  using scaling_never_divides_by_zero [of 750 0 "Bitmap 0 (-5) None" "Bitmap 0 (-5) None" 80]
  by (simp add: height_def)

text \<open>The factor the scaling block uses.\<close>

lemma scale_text_images_factor:
  assumes run: "scale_text_images a mw m p = Inr (m', p')"
    and h: "0 \<le> height m" "0 \<le> height p"
  defines "s \<equiv> min (real_of_int a / of_int (height m + height p + 10))
                    (if 0 < max (width m) (width p)
                     then real_of_int mw / of_int (max (width m) (width p)) else 1)"
  shows "(if 0 < height m
          then im_size m' = (py_int (of_int (width m) * s), py_int (of_int (height m) * s))
          else m' = m) \<and>
         (if 0 < height p
          then im_size p' = (py_int (of_int (width p) * s), py_int (of_int (height p) * s))
          else p' = p)"
proof -
  have T: "0 < height m + height p + 10" using h by simp
  then have T': "real_of_int (height m) + real_of_int (height p) + 10 \<noteq> 0"
    using h by linarith
  have ws: "text_width_scale mw (max (width m) (width p)) =
      Inr (if 0 < max (width m) (width p)
           then real_of_int mw / of_int (max (width m) (width p)) else 1)"
    by (auto simp: text_width_scale_def py_truediv_def)
  from run show ?thesis
    unfolding scale_text_images_def Let_def ws s_def
    using T T'
    by (auto simp: py_truediv_def and_then_def split: sum.splits if_splits dest: resize_size)
qed

lemma frac_of_bound:
  fixes x b d :: real
  assumes "0 \<le> x" and "x \<le> d" and "0 < d" and "0 \<le> b"
  shows "x * (b / d) \<le> b"
proof -
  have "x * (b / d) = b * (x / d)" by simp
  also have "\<dots> \<le> b * 1"
    using assms by (intro mult_left_mono) simp_all
  finally show ?thesis by simp
qed

lemma scale_text_images_bounds:
  assumes run: "scale_text_images a mw m p = Inr (m', p')"
    and a0: "0 \<le> a" and mw0: "0 \<le> mw"
    and wm: "0 \<le> width m" and hm: "0 \<le> height m"
    and wp: "0 \<le> width p" and hp: "0 \<le> height p"
  shows "(0 < height m \<longrightarrow> width m' \<le> mw) \<and> (0 < height p \<longrightarrow> width p' \<le> mw) \<and>
         height m' + height p' \<le> a"
proof -
  define hs where "hs = real_of_int a / of_int (height m + height p + 10)"
  define wsc where "wsc = (if 0 < max (width m) (width p)
                     then real_of_int mw / of_int (max (width m) (width p)) else 1)"
  define s where "s = min hs wsc"
  have T: "0 < real_of_int (height m + height p + 10)" using hm hp by simp
  have hs0: "0 \<le> hs" unfolding hs_def using a0 T by simp
  have ws0: "0 \<le> wsc" unfolding wsc_def using mw0 by simp
  have s0: "0 \<le> s" unfolding s_def using hs0 ws0 by simp
  have fac: "(if 0 < height m
          then im_size m' = (py_int (of_int (width m) * s), py_int (of_int (height m) * s))
          else m' = m) \<and>
         (if 0 < height p
          then im_size p' = (py_int (of_int (width p) * s), py_int (of_int (height p) * s))
          else p' = p)"
    using scale_text_images_factor [OF run hm hp] unfolding s_def hs_def wsc_def .
  have wbound: "real_of_int w * s \<le> of_int mw" if "0 \<le> w" "w \<le> max (width m) (width p)" for w
  proof (cases "0 < max (width m) (width p)")
    case True
    have "real_of_int w * s \<le> real_of_int w * wsc"
      using that(1) unfolding s_def by (intro mult_left_mono) simp_all
    also have "\<dots> = real_of_int w * (real_of_int mw / of_int (max (width m) (width p)))"
      using True by (simp add: wsc_def)
    also have "\<dots> \<le> of_int mw"
      using that True mw0 by (intro frac_of_bound) simp_all
    finally show ?thesis .
  next
    case False
    with that have "w = 0" by simp
    then show ?thesis using mw0 by simp
  qed
  have wres: "py_int (real_of_int w * s) \<le> mw" if "0 \<le> w" "w \<le> max (width m) (width p)" for w
    using wbound [OF that] that(1) s0 by (intro py_int_le_int) simp_all
  have hm': "real_of_int (height m') \<le> of_int (height m) * s"
  proof (cases "0 < height m")
    case True
    then have "height m' = py_int (of_int (height m) * s)" using fac by (simp add: height_def)
    then show ?thesis using py_int_le [of "of_int (height m) * s"] hm s0 by simp
  next
    case False
    then have "m' = m" "height m = 0" using fac hm by simp_all
    then show ?thesis by simp
  qed
  have hp': "real_of_int (height p') \<le> of_int (height p) * s"
  proof (cases "0 < height p")
    case True
    then have "height p' = py_int (of_int (height p) * s)" using fac by (simp add: height_def)
    then show ?thesis using py_int_le [of "of_int (height p) * s"] hp s0 by simp
  next
    case False
    then have "p' = p" "height p = 0" using fac hp by simp_all
    then show ?thesis by simp
  qed
  have "real_of_int (height m' + height p') \<le> real_of_int (height m + height p) * s"
    using hm' hp' by (simp add: algebra_simps)
  also have "\<dots> \<le> real_of_int (height m + height p) * hs"
    using hm hp unfolding s_def by (intro mult_left_mono) simp_all
  also have "\<dots> \<le> of_int a"
    unfolding hs_def using hm hp a0 T by (intro frac_of_bound) simp_all
  finally have hsum: "height m' + height p' \<le> a" by simp
  have "width m' \<le> mw" if "0 < height m"
  proof -
    have "width m' = py_int (of_int (width m) * s)" using fac that by (simp add: width_def)
    then show ?thesis using wres [of "width m"] wm by simp
  qed
  moreover have "width p' \<le> mw" if "0 < height p"
  proof -
    have "width p' = py_int (of_int (width p) * s)" using fac that by (simp add: width_def)
    then show ?thesis using wres [of "width p"] wp by simp
  qed
  ultimately show ?thesis using hsum by simp
qed

text \<open>
  What the scaling block does achieve. With the caption band \<open>int(H * 0.08)\<close> pixels high and
  a text budget of \<open>int(W * 0.75)\<close> pixels, both text bitmaps are scaled by the one factor
  \<open>s = min(height scale, width scale)\<close>. After scaling, no rescaled bitmap (one of positive
  height) is wider than \<open>0.75 * W\<close>, and the heights of the two bitmaps alone, without the
  10 pixel gap, do not exceed the caption band height.
\<close>

lemma scaled_text_within_limits:
  assumes run: "scale_text_images (py_int (of_int H * (8 / 100))) (py_int (of_int W * (75 / 100))) m p
                  = Inr (m', p')"
    and "0 \<le> W" and "0 \<le> H"
    and "0 \<le> width m" and "0 \<le> height m" and "0 \<le> width p" and "0 \<le> height p"
  shows "let s = min (real_of_int (py_int (of_int H * (8 / 100))) / of_int (height m + height p + 10))
                     (if 0 < max (width m) (width p)
                      then real_of_int (py_int (of_int W * (75 / 100))) / of_int (max (width m) (width p))
                      else 1) in
         (0 < height m \<longrightarrow>
            im_size m' = (py_int (of_int (width m) * s), py_int (of_int (height m) * s)) \<and>
            real_of_int (width m') \<le> 75 / 100 * of_int W) \<and>
         (0 < height p \<longrightarrow>
            im_size p' = (py_int (of_int (width p) * s), py_int (of_int (height p) * s)) \<and>
            real_of_int (width p') \<le> 75 / 100 * of_int W) \<and>
         height m' + height p' \<le> py_int (of_int H * (8 / 100))"
proof -
  have a0: "0 \<le> py_int (of_int H * (8 / 100))" using assms(3) by (simp add: py_int_def)
  have mw0: "0 \<le> py_int (of_int W * (75 / 100))" using assms(2) by (simp add: py_int_def)
  have mwW: "real_of_int (py_int (of_int W * (75 / 100))) \<le> 75 / 100 * of_int W"
    using py_int_le [of "of_int W * (75 / 100)"] assms(2) by simp
  note b = scale_text_images_bounds [OF run a0 mw0 assms(4-7)]
  note f = scale_text_images_factor [OF run assms(5) assms(7)]
  have "real_of_int (width m') \<le> 75 / 100 * of_int W" if "0 < height m"
  proof -
    have "real_of_int (width m') \<le> of_int (py_int (of_int W * (75 / 100)))"
      using b that by simp
    then show ?thesis using mwW by linarith
  qed
  moreover have "real_of_int (width p') \<le> 75 / 100 * of_int W" if "0 < height p"
  proof -
    have "real_of_int (width p') \<le> of_int (py_int (of_int W * (75 / 100)))"
      using b that by simp
    then show ?thesis using mwW by linarith
  qed
  ultimately show ?thesis
    unfolding Let_def using f b by (simp split: if_splits)
qed

text \<open>A 4000 by 3000 photo with text bitmaps of 240 by 100 and 1440 by 100: the factor is
  8/7 and the scaled bitmaps are 274 by 114 and 1645 by 114.\<close>

lemma scaled_text_within_limits_example:
  "scale_text_images (py_int (of_int 3000 * (8 / 100))) (py_int (of_int 4000 * (75 / 100)))
     (Bitmap 240 100 None) (Bitmap 1440 100 None)
     = Inr (Resized (Bitmap 240 100 None) 274 114, Resized (Bitmap 1440 100 None) 1645 114) \<and>
   real_of_int (width (Resized (Bitmap 240 100 None) 274 114)) \<le> 75 / 100 * of_int 4000 \<and>
   real_of_int (width (Resized (Bitmap 1440 100 None) 1645 114)) \<le> 75 / 100 * of_int 4000 \<and>
   height (Resized (Bitmap 240 100 None) 274 114) + height (Resized (Bitmap 1440 100 None) 1645 114)
     \<le> py_int (of_int 3000 * (8 / 100))"
proof -
  have run: "scale_text_images (py_int (of_int 3000 * (8 / 100))) (py_int (of_int 4000 * (75 / 100)))
     (Bitmap 240 100 None) (Bitmap 1440 100 None)
     = Inr (Resized (Bitmap 240 100 None) 274 114, Resized (Bitmap 1440 100 None) 1645 114)"
    by (simp add: scale_text_images_def text_width_scale_def py_truediv_def py_int_def resize_def
        width_def height_def Let_def)
  show ?thesis
    using scaled_text_within_limits [OF run] run
    by (simp add: width_def height_def Let_def)
qed

text \<open>
  Claim C4 on a concrete run: a 1500 by 1000 photo, whose caption band is 80 pixels high, with
  text bitmaps of 240 by 100 and 1440 by 100. Line 461 counts the 10 pixel gap in the height
  the factor is computed from, and lines 487 to 489 centre the stack with its gap in the
  band, but the gap itself is pasted unscaled: both bitmaps are scaled by 8/21 to a height
  of 38, and the stacked text (model height, parameter height and gap) is 86 pixels high,
  taller than the band, where the claim and the comments of lines 460 to 473 have it fit.
\<close>

theorem stacked_text_exceeds_band:
  "scale_text_images (py_int (of_int 1000 * (8 / 100))) (py_int (of_int 1500 * (75 / 100)))
     (Bitmap 240 100 None) (Bitmap 1440 100 None)
     = Inr (Resized (Bitmap 240 100 None) 91 38, Resized (Bitmap 1440 100 None) 548 38) \<and>
   \<not> (height (Resized (Bitmap 240 100 None) 91 38) + height (Resized (Bitmap 1440 100 None) 548 38) + 10
        \<le> py_int (of_int 1000 * (8 / 100)))"
  by (simp add: scale_text_images_def text_width_scale_def py_truediv_def py_int_def resize_def
      width_def height_def Let_def)

subsection \<open>BackgroundBlurWithParams: the text placement\<close>

text \<open>Line 498 puts the parameter text at \<open>start_y - model_image.height + 10\<close>: above the model
  name by its height less 10 pixels, whatever the input.\<close>

lemma param_text_offset:
  "snd (snd (text_positions fw fh a tp m p)) = snd (fst (text_positions fw fh a tp m p)) - height m + 10"
  by (simp add: text_positions_def Let_def)

text \<open>
  Claim C5 on a concrete run: a 1500 by 1000 photo, the model name rendered 240 by 100 and the
  parameter string 1440 by 100. The canvas is 1770 by 1260 and its caption band the rows from
  1180 on. The model name (91 by 38 after scaling) is pasted at \<open>(839, 1159)\<close>, the parameter
  text (548 by 38) at \<open>(611, 1131)\<close>: both centred horizontally, but the parameter text lies 28
  rows above the model name and overlaps it, where the claim and the comment of line 496
  have it below the model name, after a gap of 10 pixels.
\<close>

theorem param_text_not_below_model:
  "BackgroundBlurWithParamsProcessor_process demo_utils (demo_config 5 0 (PyStr ''left'') None)
     (photo 1500 1000 (3 / 2)) =
     Inr ((photo 1500 1000 (3 / 2))\<lparr>watermark_img :=
       Pasted
         (Pasted
           (Pasted
             (Blended (GaussianBlur (Resized (Bitmap 1500 1000 None) 1770 1260) 75)
                (Image_new 1770 1260 (RGB 255 255 255)) (1 / 10))
             (Resized (Bitmap 240 100 None) 91 38) 839 1159)
           (Resized (Bitmap 1440 100 None) 548 38) 611 1131)
         (Bitmap 1540 1040 None) 125 62\<rparr>)"
  by (simp add: BackgroundBlurWithParamsProcessor_process_def demo_utils_def demo_config_def photo_def
      get_width_def get_height_def get_watermark_img_def update_watermark_img_def
      PADDING_PERCENT_IN_BACKGROUND_def GAUSSIAN_KERNEL_RADIUS_def
      scale_text_images_def text_width_scale_def text_positions_def
      py_truediv_def py_int_def resize_def blend_def Image_new_checked_def
      width_def height_def Let_def)

subsection \<open>PaddingToOriginalRatio\<close>

text \<open>The stage never enlarges an image: whichever branch is taken, the padding it computes
  is zero or negative, and \<^verbatim>\<open>ImageOps.expand\<close> with a negative border crops.\<close>

lemma padding_to_original_ratio_never_pads:
  assumes sz: "im_size (watermark_img c) = (W, H)" and W: "0 < W" and H: "0 < H"
    and r: "0 < original_ratio c"
    and run: "PaddingToOriginalRatioProcessor_process c = Inr c'"
  shows "get_width c' \<le> W \<and> get_height c' \<le> H"
proof -
  have wh: "get_width c = W" "get_height c = H"
    using sz by (simp_all add: get_width_def get_height_def get_watermark_img_def width_def height_def)
  have ratio: "get_ratio c = Inr (of_int W / of_int H)"
    using H by (simp add: get_ratio_def wh py_truediv_def)
  show ?thesis
  proof (cases "original_ratio c > of_int W / of_int H")
    case True
    then have "real_of_int W < original_ratio c * of_int H"
      using H by (simp add: pos_divide_less_eq)
    then have "real_of_int W / original_ratio c < of_int H"
      using r by (simp add: pos_divide_less_eq mult.commute)
    then have p: "py_int (real_of_int W / original_ratio c - of_int H) \<le> 0"
      by (intro py_int_nonpos) simp
    from run True r p show ?thesis
      unfolding PaddingToOriginalRatioProcessor_process_def Let_def ratio get_original_ratio_def wh
      by (auto simp: and_then_eq_Inr_iff py_truediv_def border2_def update_watermark_img_def
          get_watermark_img_def get_width_def get_height_def width_def height_def sz
          dest!: expand_size)
  next
    case False
    then have "original_ratio c \<le> real_of_int W / of_int H" by simp
    then have "original_ratio c * of_int H \<le> real_of_int W"
      using H by (simp add: pos_le_divide_eq)
    then have p: "py_int (of_int H * original_ratio c - real_of_int W) \<le> 0"
      by (intro py_int_nonpos) (simp add: mult.commute)
    from run False p show ?thesis
      unfolding PaddingToOriginalRatioProcessor_process_def Let_def ratio get_original_ratio_def wh
      by (auto simp: and_then_eq_Inr_iff border2_def update_watermark_img_def
          get_watermark_img_def get_width_def get_height_def width_def height_def sz
          dest!: expand_size)
  qed
qed

text \<open>
  Claim C3 on two concrete runs. A working image of 149 by 100 with original ratio 1.5: the
  computed padding is \<open>int(149 / 1.5 - 100) = 0\<close>, the image stays 149 by 100 and its ratio
  rounds to 1.49, not 1.50. A working image of 4000 by 3200 (a 4000 by 3000 photo with a band
  of 200 rows below it) with original ratio 4/3: the computed padding is \<open>-200\<close>, applied to
  top and bottom alike, and the image is cropped to 4000 by 2800, ratio 1.43.
\<close>

theorem padding_to_original_ratio_misses:
  "PaddingToOriginalRatioProcessor_process
     ((photo 150 100 (3 / 2))\<lparr>watermark_img := Bitmap 149 100 None\<rparr>) =
     Inr ((photo 150 100 (3 / 2))\<lparr>watermark_img :=
            Pasted (Image_new 149 100 (ColourStr ''white'')) (Bitmap 149 100 None) 0 0\<rparr>) \<and>
   PaddingToOriginalRatioProcessor_process
     ((photo 4000 3000 (4 / 3))\<lparr>watermark_img := Bitmap 4000 3200 None\<rparr>) =
     Inr ((photo 4000 3000 (4 / 3))\<lparr>watermark_img :=
            Pasted (Image_new 4000 2800 (ColourStr ''white'')) (Bitmap 4000 3200 None) 0 (- 200)\<rparr>)"
  by (simp add: PaddingToOriginalRatioProcessor_process_def photo_def get_ratio_def
      get_original_ratio_def get_width_def get_height_def get_watermark_img_def
      update_watermark_img_def expand_def border2_def
      py_truediv_def py_int_def Image_new_checked_def width_def height_def Let_def)

subsection \<open>Watermark: the divider line\<close>

text \<open>
  Claim C8, as the code has it. With the logo enabled and a padding ratio that is not negative:
  when the logo position is not \<open>'left'\<close>, the divider put between logo and right column is the
  gray line (padded) if the loader returned a bitmap and the transparent spacer if it returned
  none; when the logo position is \<open>'left'\<close> and the loader returned a bitmap, the divider put
  before the logo is the transparent spacer.
\<close>

theorem divider_line_by_position:
  assumes "logo_enable self" and "0 \<le> padding_ratio" and "0 \<le> width lg" and "0 \<le> height lg"
  shows "let j = py_int (padding_ratio * of_int (height lg));
             k = py_int (padding_ratio * 1000 * (8 / 10));
             logo = Pasted (Image_new (width lg) (height lg + j + j) Unset) lg 0 j in
         (\<not> WatermarkProcessor_is_logo_left self \<longrightarrow>
            assemble_band self watermark (Some lg) left right padding_ratio =
              Inr (Appended (Appended watermark [Some left] ''left'' True)
                     [Some logo,
                      Some (Pasted (Image_new 20 (1000 + k + k) Unset) (Image_new 20 1000 GRAY) 0 k),
                      Some right] ''right'' False) \<and>
            assemble_band self watermark None left right padding_ratio =
              Inr (Appended (Appended watermark [Some left] ''left'' True)
                     [None, Some (Image_new 20 1000 TRANSPARENT), Some right] ''right'' False)) \<and>
         (WatermarkProcessor_is_logo_left self \<longrightarrow>
            assemble_band self watermark (Some lg) left right padding_ratio =
              Inr (Appended (Appended watermark
                     [Some (Image_new 20 1000 TRANSPARENT), Some logo, Some left] ''left'' False)
                     [Some right] ''right'' False))"
proof -
  define j where "j = py_int (padding_ratio * of_int (height lg))"
  define k where "k = py_int (padding_ratio * of_int (height LINE_GRAY) * (8 / 10))"
  have j0: "0 \<le> j" unfolding j_def using assms(2,4) by (intro py_int_nonneg_ge) simp
  have k0: "0 \<le> k" unfolding k_def using assms(2)
    by (intro py_int_nonneg_ge) (simp add: LINE_GRAY_def height_def)
  have pl: "padding_image lg (py_int (padding_ratio * of_int (height lg))) default_padding_location Unset =
      Inr (Pasted (Image_new (width lg) (height lg + j + j) Unset) lg 0 j)"
    unfolding j_def [symmetric] using j0 assms(3,4) by (rule padding_image_tb)
  have pg: "padding_image LINE_GRAY (py_int (padding_ratio * of_int (height LINE_GRAY) * (8 / 10)))
        default_padding_location Unset =
      Inr (Pasted (Image_new 20 (1000 + k + k) Unset) (Image_new 20 1000 GRAY) 0 k)"
    unfolding k_def [symmetric]
    using padding_image_tb [OF k0, of LINE_GRAY Unset] by (simp add: LINE_GRAY_def width_def height_def)
  have k_eq: "py_int (padding_ratio * 1000 * (8 / 10)) = k"
    unfolding k_def by (simp add: LINE_GRAY_def height_def)
  show ?thesis
    unfolding Let_def k_eq j_def [symmetric] assemble_band_def pg
    using assms(1)
    by (simp add: pl append_image_by_side_def LINE_TRANSPARENT_def)
qed

text \<open>The right-logo processor on a 25000 by 1000 band, with a 500 by 300 logo and without.\<close>

theorem divider_line_by_position_witness:
  "assemble_band WatermarkRightLogoProcessor_init (Image_new 25000 1000 (ColourStr ''#ffffff''))
     (Some (Bitmap 500 300 None)) (Bitmap 600 428 None) (Bitmap 900 428 None) (52 / 100) =
     Inr (Appended (Appended (Image_new 25000 1000 (ColourStr ''#ffffff''))
                      [Some (Bitmap 600 428 None)] ''left'' True)
            [Some (Pasted (Image_new 500 612 Unset) (Bitmap 500 300 None) 0 156),
             Some (Pasted (Image_new 20 1832 Unset) (Image_new 20 1000 GRAY) 0 416),
             Some (Bitmap 900 428 None)] ''right'' False) \<and>
   assemble_band WatermarkRightLogoProcessor_init (Image_new 25000 1000 (ColourStr ''#ffffff''))
     None (Bitmap 600 428 None) (Bitmap 900 428 None) (52 / 100) =
     Inr (Appended (Appended (Image_new 25000 1000 (ColourStr ''#ffffff''))
                      [Some (Bitmap 600 428 None)] ''left'' True)
            [None, Some (Image_new 20 1000 TRANSPARENT), Some (Bitmap 900 428 None)] ''right'' False)"
  using divider_line_by_position [of WatermarkRightLogoProcessor_init "52 / 100" "Bitmap 500 300 None"
      "Image_new 25000 1000 (ColourStr ''#ffffff'')" "Bitmap 600 428 None" "Bitmap 900 428 None"]
  by (simp add: WatermarkRightLogoProcessor_init_def WatermarkProcessor_init_def
      WatermarkProcessor_is_logo_left_def width_def height_def py_int_def Let_def)

text \<open>
  Claim C8 as stated fails for the position \<open>'left'\<close>: with a logo bitmap present the divider
  is the transparent spacer, not the gray line.
\<close>

theorem left_logo_divider_transparent_counterexample:
  "assemble_band WatermarkLeftLogoProcessor_init (Image_new 25000 1000 (ColourStr ''#ffffff''))
     (Some (Bitmap 500 300 None)) (Bitmap 600 428 None) (Bitmap 900 428 None) (52 / 100) =
     Inr (Appended (Appended (Image_new 25000 1000 (ColourStr ''#ffffff''))
                      [Some (Image_new 20 1000 TRANSPARENT),
                       Some (Pasted (Image_new 500 612 Unset) (Bitmap 500 300 None) 0 156),
                       Some (Bitmap 600 428 None)] ''left'' False)
            [Some (Bitmap 900 428 None)] ''right'' False)"
  by (simp add: assemble_band_def WatermarkLeftLogoProcessor_init_def WatermarkProcessor_init_def
      WatermarkProcessor_is_logo_left_def LINE_TRANSPARENT_def padding_image_def
      default_padding_location_def Image_new_checked_def append_image_by_side_def
      width_def height_def py_int_def Let_def)

text \<open>With the position \<open>'left'\<close> and no logo bitmap, line 182 reads the height of the absent
  logo and the stage raises.\<close>

lemma left_logo_absent_raises:
  assumes "logo_enable self" and "WatermarkProcessor_is_logo_left self"
  shows "assemble_band self watermark None left right padding_ratio = Inl AttributeError"
  using assms by (simp add: assemble_band_def)

subsection \<open>Watermark: the size of the output\<close>

lemma resize_image_with_width_width:
  assumes "resize_image_with_width f i w = Inr band"
  shows "width band = w"
  using assms
  by (auto simp: resize_image_with_width_def and_then_eq_Inr_iff width_def dest!: resize_size)

lemma exif_transpose_fresh_canvas:
  "exif_transpose (AlphaComposite (Pasted (Image_new w h c) i x y) fg) =
     AlphaComposite (Pasted (Image_new w h c) i x y) fg"
  by (simp add: exif_transpose_def)

text \<open>
  Claim C2. Whenever the watermark stage returns, for any processor of the family, the new
  working image is the alpha composite of two canvases of one size: the old working image
  pasted at \<open>(0, 0)\<close> on a canvas in the background colour, and the band, rescaled to the
  working width, pasted at \<open>(0, height)\<close> on a transparent canvas. Its width is the old width,
  its height the old height plus the height of the rescaled band; the photo takes the rows
  above \<open>height\<close> and the band the rows from \<open>height\<close> on. The composite of fresh canvases
  carries no EXIF orientation, so the orientation correction leaves it as it is.
\<close>

theorem watermark_output_size:
  assumes run: "WatermarkProcessor_process u self config c = Inr (config', c')"
  shows "\<exists>watermark left right padding_ratio assembled band.
           assemble_band self watermark (load_logo config (get_make c)) left right padding_ratio
             = Inr assembled \<and>
           resize_image_with_width (to_px u) assembled (get_width c) = Inr band \<and>
           width band = get_width c \<and>
           get_watermark_img c' =
             AlphaComposite
               (Pasted (Image_new (get_width c) (get_height c + height band) (self_bg_color self))
                  (get_watermark_img c) 0 0)
               (Pasted (Image_new (get_width c) (get_height c + height band) TRANSPARENT)
                  band 0 (get_height c)) \<and>
           get_width c' = get_width c \<and>
           get_height c' = get_height c + height band"
proof -
  from run obtain watermark left right padding_ratio assembled band bg fg result where
    asm: "assemble_band self watermark (load_logo config (get_make c)) left right padding_ratio
            = Inr assembled"
    and rs: "resize_image_with_width (to_px u) assembled (get_width c) = Inr band"
    and bg: "expand (convert (get_watermark_img c) ''RGBA'') (0, 0, 0, height band) (self_bg_color self)
               = Inr bg"
    and fg: "expand band (0, get_height c, 0, 0) TRANSPARENT = Inr fg"
    and ac: "alpha_composite bg fg = Inr result"
    and c': "c' = update_watermark_img c (convert (exif_transpose result) ''RGB'')"
    unfolding WatermarkProcessor_process_def Let_def
    by (auto simp: and_then_eq_Inr_iff split: prod.splits)
  have wb: "width band = get_width c" using rs by (rule resize_image_with_width_width)
  have bg': "bg = Pasted (Image_new (get_width c) (get_height c + height band) (self_bg_color self))
                    (get_watermark_img c) 0 0"
    using expand_size [OF bg] by (simp add: convert_def get_width_def get_height_def)
  have fg': "fg = Pasted (Image_new (get_width c) (get_height c + height band) TRANSPARENT)
                    band 0 (get_height c)"
    using expand_size [OF fg] by (simp add: wb add.commute)
  have res: "result = AlphaComposite bg fg" using alpha_composite_Inr [OF ac] by simp
  have img: "get_watermark_img c' = AlphaComposite bg fg"
    unfolding c' res bg' by (simp add: convert_def exif_transpose_fresh_canvas
        update_watermark_img_def get_watermark_img_def)
  have "get_width c' = get_width c" "get_height c' = get_height c + height band"
    unfolding get_width_def get_height_def img bg' by (simp_all add: width_def height_def)
  with asm rs wb img bg' fg' show ?thesis by blast
qed

text \<open>A 4000 by 3000 photo through the left-logo processor: the band is 25000 by 1000, rescaled
  to 4000 by 160, and the output is 4000 by 3160.\<close>

theorem watermark_output_size_witness:
  "WatermarkProcessor_process demo_utils WatermarkLeftLogoProcessor_init
     (demo_config 5 0 (PyStr ''left'') (Some (Bitmap 500 300 None))) (photo 4000 3000 (4 / 3)) =
     Inr (demo_config 5 0 (PyStr ''left'') (Some (Bitmap 500 300 None)),
          (photo 4000 3000 (4 / 3))\<lparr>watermark_img :=
             AlphaComposite
               (Pasted (Image_new 4000 3160 (ColourStr ''#ffffff'')) (Bitmap 4000 3000 None) 0 0)
               (Pasted (Image_new 4000 3160 TRANSPARENT) demo_band 0 3000)\<rparr>)"
proof -
  have run: "WatermarkProcessor_process demo_utils WatermarkLeftLogoProcessor_init
     (demo_config 5 0 (PyStr ''left'') (Some (Bitmap 500 300 None))) (photo 4000 3000 (4 / 3)) =
     Inr (demo_config 5 0 (PyStr ''left'') (Some (Bitmap 500 300 None)),
          (photo 4000 3000 (4 / 3))\<lparr>watermark_img :=
             AlphaComposite
               (Pasted (Image_new 4000 3160 (ColourStr ''#ffffff'')) (Bitmap 4000 3000 None) 0 0)
               (Pasted (Image_new 4000 3160 TRANSPARENT) demo_band 0 3000)\<rparr>)"
    by (simp add: WatermarkProcessor_process_def WatermarkLeftLogoProcessor_init_def
        WatermarkProcessor_init_def WatermarkProcessor_is_logo_left_def
        demo_utils_def demo_config_def photo_def plain_element_def demo_band_def
        normalize_columns_def assemble_band_def padding_image_def default_padding_location_def
        concatenate_image_def append_image_by_side_def resize_image_with_width_def resize_def
        expand_def alpha_composite_def exif_transpose_def convert_def
        Image_new_checked_def LINE_TRANSPARENT_def NORMAL_HEIGHT_def
        get_ratio_def get_width_def get_height_def get_watermark_img_def update_watermark_img_def
        py_truediv_def py_int_def width_def height_def Let_def)
  from watermark_output_size [OF run] run show ?thesis by simp
qed

end
